theory Spec2Isabelle
  imports Complex_Main "HOL-Library.Word"
begin

section \<open>Common types (CommonTypes.h, IGraphics.h, IModule.h)\<close>

type_synonym uint32 = "32 word"
type_synonym uint64 = "64 word"

text \<open>A pointer is its address; address 0 is \<^verbatim>\<open>nullptr\<close>.\<close>

type_synonym ptr = nat

definition nullptr :: ptr where
  "nullptr = 0"

datatype Result =
  Success | Failure | FileNotFound | InvalidParameter | OutOfMemory
  | NotInitialized | AlreadyInitialized | PlatformError

datatype ModulePriority = Core | System | Engine | Game | UI

datatype TextureFormat =
  R8_UNorm | RGBA8_UNorm | RGBA16_Float | Depth32_Float | BC1_UNorm | BC3_UNorm

datatype TextureUsage = Static | Dynamic | RenderTarget

subsection \<open>Resource handles\<close>

datatype TextureHandle = TextureHandle (texture_id: uint64)
datatype ShaderHandle = ShaderHandle (shader_id: uint64)
datatype MeshHandle = MeshHandle (mesh_id: uint64)

text \<open>The default constructors: \<^verbatim>\<open>TextureHandle() : id(0) {}\<close> and its two siblings.\<close>

definition TextureHandle_default :: TextureHandle where
  "TextureHandle_default = TextureHandle 0"

definition ShaderHandle_default :: ShaderHandle where
  "ShaderHandle_default = ShaderHandle 0"

definition MeshHandle_default :: MeshHandle where
  "MeshHandle_default = MeshHandle 0"

text \<open>\<^verbatim>\<open>bool IsValid() const { return id != 0; }\<close>, once per handle type.\<close>

definition TextureHandle_IsValid :: "TextureHandle \<Rightarrow> bool" where
  "TextureHandle_IsValid h = (texture_id h \<noteq> 0)"

definition ShaderHandle_IsValid :: "ShaderHandle \<Rightarrow> bool" where
  "ShaderHandle_IsValid h = (shader_id h \<noteq> 0)"

definition MeshHandle_IsValid :: "MeshHandle \<Rightarrow> bool" where
  "MeshHandle_IsValid h = (mesh_id h \<noteq> 0)"

subsection \<open>Creation parameters and module metadata\<close>

text \<open>\<^verbatim>\<open>debugName\<close> is a \<^verbatim>\<open>const char*\<close>; \<open>None\<close> is the null pointer.\<close>

record TextureDesc =
  width :: uint32
  height :: uint32
  format :: TextureFormat
  usage :: TextureUsage
  mipLevels :: uint32
  debugName :: "string option"

definition TextureDesc_default :: TextureDesc where
  "TextureDesc_default =
     \<lparr>width = 0, height = 0, format = RGBA8_UNorm, usage = Static, mipLevels = 1,
      debugName = None\<rparr>"

record ModuleInfo =
  name :: string
  version :: string
  description :: string
  priority :: ModulePriority
  minimumApiVersion :: uint32

section \<open>The Direct3D 11 backend (GraphicsModule.h, GraphicsModule.cpp)\<close>

subsection \<open>The native interface\<close>

text \<open>
  \<^verbatim>\<open>HRESULT\<close> is a signed 32-bit integer, and \<^verbatim>\<open>SUCCEEDED(hr)\<close> is \<^verbatim>\<open>hr >= 0\<close>.
\<close>

type_synonym HRESULT = "32 word"

definition SUCCEEDED :: "HRESULT \<Rightarrow> bool" where
  "SUCCEEDED hr = (0 \<le> sint hr)"

definition S_OK :: HRESULT where
  "S_OK = 0"

definition E_FAIL :: HRESULT where
  "E_FAIL = 0x80004005"

text \<open>
  The fields of \<^verbatim>\<open>D3D11_TEXTURE2D_DESC\<close>. \<^verbatim>\<open>texDesc = {}\<close> zeroes all of them
  before the assignments of \<^verbatim>\<open>CreateTexture\<close>.
\<close>

record D3D11_TEXTURE2D_DESC =
  Width :: uint32
  Height :: uint32
  MipLevels :: uint32
  ArraySize :: uint32
  Format :: uint32
  SampleDesc_Count :: uint32
  SampleDesc_Quality :: uint32
  Usage :: uint32
  BindFlags :: uint32
  CPUAccessFlags :: uint32
  MiscFlags :: uint32

definition DXGI_FORMAT_R8G8B8A8_UNORM :: uint32 where
  "DXGI_FORMAT_R8G8B8A8_UNORM = 28"

definition D3D11_USAGE_DEFAULT :: uint32 where
  "D3D11_USAGE_DEFAULT = 0"

definition D3D11_BIND_SHADER_RESOURCE :: uint32 where
  "D3D11_BIND_SHADER_RESOURCE = 8"

text \<open>
  What one call of \<^verbatim>\<open>D3D11CreateDevice\<close> does to its caller: the result code and the
  values it stores through \<^verbatim>\<open>&m_Device\<close> and \<^verbatim>\<open>&m_Context\<close>. The arguments of the
  source's only call are all constants, so the outcome is the platform's alone.
\<close>

record D3D11CreateDevice_outcome =
  device_hr :: HRESULT
  ppDevice :: ptr
  ppImmediateContext :: ptr

text \<open>
  What one call of \<^verbatim>\<open>ID3D11Device::CreateTexture2D\<close> does: from the device and the
  description, the result code and the value stored through \<^verbatim>\<open>&texture\<close>.
\<close>

type_synonym CreateTexture2D_call = "ptr \<Rightarrow> D3D11_TEXTURE2D_DESC \<Rightarrow> HRESULT \<times> ptr"

subsection \<open>The module's state\<close>

text \<open>
  \<^verbatim>\<open>struct TextureData { texture; view; width, height; }\<close>. \<^verbatim>\<open>CreateTexture\<close> declares
  \<^verbatim>\<open>TextureData data;\<close> and never assigns \<^verbatim>\<open>view\<close>: \<open>None\<close> is that indeterminate
  value. The two sizes are named \<open>data_width\<close> and \<open>data_height\<close> apart from the fields
  of \<open>TextureDesc\<close>.
\<close>

record TextureData =
  texture :: ptr
  view :: "ptr option"
  data_width :: uint32
  data_height :: uint32

record GraphicsModule =
  m_Device :: ptr
  m_Context :: ptr
  m_Initialized :: bool

text \<open>
  A method runs on its object and on the file-level \<^verbatim>\<open>static std::vector<TextureData>
  s_Textures\<close>, which every instance shares.
\<close>

type_synonym module_state = "GraphicsModule \<times> TextureData list"

datatype fault = NullDereference | InvalidDelete

text \<open>\<^verbatim>\<open>GraphicsModule::GraphicsModule()\<close>\<close>

definition GraphicsModule_ctor :: GraphicsModule where
  "GraphicsModule_ctor = \<lparr>m_Device = nullptr, m_Context = nullptr, m_Initialized = False\<rparr>"

definition IsInitialized :: "GraphicsModule \<Rightarrow> bool" where
  "IsInitialized m = m_Initialized m"

definition GetName :: "GraphicsModule \<Rightarrow> string" where
  "GetName m = ''DirectX11 Graphics''"

definition GetVersion :: "GraphicsModule \<Rightarrow> string" where
  "GetVersion m = ''1.0.0''"

definition GetPriority :: "GraphicsModule \<Rightarrow> ModulePriority" where
  "GetPriority m = System"

subsection \<open>Initialisation\<close>

text \<open>
  \<^verbatim>\<open>InitializeDirectX\<close>: the native call writes the two members, whatever it returns;
  the result is \<^verbatim>\<open>SUCCEEDED(hr)\<close>.
\<close>

definition InitializeDirectX :: "D3D11CreateDevice_outcome \<Rightarrow> GraphicsModule \<Rightarrow> bool \<times> GraphicsModule" where
  "InitializeDirectX native m =
     (SUCCEEDED (device_hr native),
      m\<lparr>m_Device := ppDevice native, m_Context := ppImmediateContext native\<rparr>)"

text \<open>
  \<^verbatim>\<open>GraphicsModule::Initialize\<close>. Its parameter \<^verbatim>\<open>app\<close> is never read, and the model
  leaves it out.
\<close>

definition Initialize :: "D3D11CreateDevice_outcome \<Rightarrow> GraphicsModule \<Rightarrow> Result \<times> GraphicsModule" where
  "Initialize native m =
     (if m_Initialized m then (AlreadyInitialized, m)
      else
        (let (ok, m1) = InitializeDirectX native m in
         if \<not> ok then (Failure, m1)
         else (Success, m1\<lparr>m_Initialized := True\<rparr>)))"

subsection \<open>Texture creation\<close>

definition texDesc_of :: "TextureDesc \<Rightarrow> D3D11_TEXTURE2D_DESC" where
  "texDesc_of desc =
     \<lparr>Width = width desc, Height = height desc, MipLevels = mipLevels desc, ArraySize = 1,
      Format = DXGI_FORMAT_R8G8B8A8_UNORM, SampleDesc_Count = 1, SampleDesc_Quality = 0,
      Usage = D3D11_USAGE_DEFAULT, BindFlags = D3D11_BIND_SHADER_RESOURCE,
      CPUAccessFlags = 0, MiscFlags = 0\<rparr>"

text \<open>
  \<^verbatim>\<open>GraphicsModule::CreateTexture\<close>. The object is not changed; the result is the handle
  and the new \<^verbatim>\<open>s_Textures\<close>. The call through \<^verbatim>\<open>m_Device\<close> is a fault when the
  pointer is null. The handle is \<^verbatim>\<open>s_Textures.size()\<close> after the \<^verbatim>\<open>push_back\<close>,
  converted to \<^verbatim>\<open>uint64\<close>.
\<close>

definition CreateTexture ::
  "CreateTexture2D_call \<Rightarrow> TextureDesc \<Rightarrow> module_state \<Rightarrow> fault + (TextureHandle \<times> TextureData list)" where
  "CreateTexture native desc s =
     (let (m, s_Textures) = s in
      if \<not> m_Initialized m then Inr (TextureHandle_default, s_Textures)
      else if m_Device m = nullptr then Inl NullDereference
      else
        (let (hr, tex) = native (m_Device m) (texDesc_of desc) in
         if SUCCEEDED hr then
           (let data = \<lparr>texture = tex, view = None, data_width = width desc,
                        data_height = height desc\<rparr>;
                s_Textures' = s_Textures @ [data]
            in Inr (TextureHandle (of_nat (length s_Textures')), s_Textures'))
         else Inr (TextureHandle_default, s_Textures)))"

subsection \<open>The exported C functions\<close>

text \<open>\<^verbatim>\<open>GetModuleInfo\<close>, the exported function with C linkage.\<close>

definition GetModuleInfo :: ModuleInfo where
  "GetModuleInfo =
     \<lparr>name = ''DirectX11 Graphics'', version = ''1.0.0'',
      description = ''DirectX 11 rendering implementation'', priority = System,
      minimumApiVersion = 1\<rparr>"

text \<open>
  Modelled from the spec: \<^verbatim>\<open>GraphicsModule::Shutdown\<close> is declared in GraphicsModule.h
  and its body is in none of the sources. By the spec it releases the device and the
  context and clears the resource table, restores \<^verbatim>\<open>IsInitialized\<close> to false, and is a
  no-op on a module that is not initialized.
\<close>

definition Shutdown :: "module_state \<Rightarrow> module_state" where
  "Shutdown s =
     (let (m, s_Textures) = s in
      if \<not> m_Initialized m then s
      else (m\<lparr>m_Device := nullptr, m_Context := nullptr, m_Initialized := False\<rparr>, []))"

text \<open>\<^verbatim>\<open>GraphicsModule::~GraphicsModule() { Shutdown(); }\<close>\<close>

definition GraphicsModule_dtor :: "module_state \<Rightarrow> module_state" where
  "GraphicsModule_dtor s = Shutdown s"

text \<open>
  The objects \<^verbatim>\<open>CreateModule\<close> allocates live on the free store, a map from addresses
  to objects. \<^verbatim>\<open>CreateModule\<close> is \<^verbatim>\<open>new GraphicsModule()\<close>; \<open>p\<close> is the address the
  allocator hands out.
\<close>

type_synonym free_store = "ptr \<rightharpoonup> GraphicsModule"

definition CreateModule :: "ptr \<Rightarrow> free_store \<Rightarrow> ptr \<times> free_store" where
  "CreateModule p h = (p, h(p \<mapsto> GraphicsModule_ctor))"

text \<open>
  \<^verbatim>\<open>DestroyModule\<close> is \<^verbatim>\<open>delete static_cast<GraphicsModule*>(module)\<close>: nothing for a null
  pointer; otherwise the destructor runs on the object (\<open>delete_destructor\<close>) and then
  its storage is given back (\<open>operator_delete\<close>). A pointer to no live object is a fault.
\<close>

definition delete_destructor ::
  "ptr \<Rightarrow> free_store \<times> TextureData list \<Rightarrow> fault + (free_store \<times> TextureData list)" where
  "delete_destructor p w =
     (let (h, s_Textures) = w in
      case h p of
        None \<Rightarrow> Inl InvalidDelete
      | Some m \<Rightarrow>
          (let (m', s_Textures') = GraphicsModule_dtor (m, s_Textures)
           in Inr (h(p \<mapsto> m'), s_Textures')))"

definition operator_delete ::
  "ptr \<Rightarrow> free_store \<times> TextureData list \<Rightarrow> free_store \<times> TextureData list" where
  "operator_delete p w = (let (h, s_Textures) = w in (h(p := None), s_Textures))"

definition DestroyModule ::
  "ptr \<Rightarrow> free_store \<times> TextureData list \<Rightarrow> fault + (free_store \<times> TextureData list)" where
  "DestroyModule p w =
     (if p = nullptr then Inr w
      else
        (case delete_destructor p w of
           Inl f \<Rightarrow> Inl f
         | Inr w' \<Rightarrow> Inr (operator_delete p w')))"

section \<open>The host application (Application::Run)\<close>

text \<open>
  What the platform answers to the host: the handle \<^verbatim>\<open>LoadLibraryA\<close> returns, the address
  \<^verbatim>\<open>GetProcAddress\<close> returns for a symbol name, the pointer the library's factory
  returns, and whether that object is an \<^verbatim>\<open>IGraphics\<close> (what the \<^verbatim>\<open>dynamic_cast\<close> tests).
\<close>

record host_env =
  LoadLibraryA_result :: ptr
  GetProcAddress_result :: "string \<Rightarrow> ptr"
  createFunc_result :: ptr
  is_IGraphics :: bool

datatype message = Loading | LoadFailed | NoCreateModule

text \<open>The calls \<^verbatim>\<open>Run\<close> makes, in the order it makes them.\<close>

datatype event =
  Print message
  | LoadLibraryA string
  | GetProcAddress ptr string
  | CallCreate
  | CallInitialize ptr
  | CallClear ptr
  | CallDrawText ptr
  | CallUpdate ptr
  | CallShutdown ptr
  | CallDestroy ptr
  | FreeLibrary ptr

text \<open>
  A run with a bound on the iterations of the game loop: \<open>Done\<close> when the code came to its
  end within the bound, \<open>OutOfFuel\<close> when the loop was still running; both carry the calls
  made so far.
\<close>

datatype run = Done "event list" | OutOfFuel "event list"

text \<open>
  \<^verbatim>\<open>while (running) { Clear; DrawText; Update; }\<close>. The body never assigns \<^verbatim>\<open>running\<close>.
\<close>

fun game_loop :: "nat \<Rightarrow> bool \<Rightarrow> ptr \<Rightarrow> event list \<Rightarrow> run" where
  "game_loop 0 running graphics tr = (if running then OutOfFuel tr else Done tr)"
| "game_loop (Suc fuel) running graphics tr =
     (if running
      then game_loop fuel running graphics
             (tr @ [CallClear graphics, CallDrawText graphics, CallUpdate graphics])
      else Done tr)"

text \<open>\<^verbatim>\<open>dynamic_cast<Engine::IGraphics*>(createFunc())\<close>\<close>

definition dynamic_cast_IGraphics :: "host_env \<Rightarrow> ptr" where
  "dynamic_cast_IGraphics env =
     (if createFunc_result env \<noteq> nullptr \<and> is_IGraphics env then createFunc_result env
      else nullptr)"

definition Run :: "host_env \<Rightarrow> nat \<Rightarrow> run" where
  "Run env fuel =
     (let tr0 = [Print Loading, LoadLibraryA ''GraphicsModule.dll''];
          graphicsDLL = LoadLibraryA_result env
      in
      if graphicsDLL = nullptr then Done (tr0 @ [Print LoadFailed])
      else
        (let tr1 = tr0 @ [GetProcAddress graphicsDLL ''CreateModule''] in
         if GetProcAddress_result env ''CreateModule'' = nullptr
         then Done (tr1 @ [Print NoCreateModule])
         else
           (let tr2 = tr1 @ [CallCreate];
                graphics = dynamic_cast_IGraphics env
            in
            if graphics \<noteq> nullptr then
              (case game_loop fuel True graphics (tr2 @ [CallInitialize graphics]) of
                 OutOfFuel tr \<Rightarrow> OutOfFuel tr
               | Done tr3 \<Rightarrow>
                   (let tr4 = tr3 @ [CallShutdown graphics,
                                     GetProcAddress graphicsDLL ''DestroyModule''];
                        tr5 = (if GetProcAddress_result env ''DestroyModule'' \<noteq> nullptr
                               then tr4 @ [CallDestroy graphics] else tr4)
                    in Done (tr5 @ [FreeLibrary graphicsDLL])))
            else Done (tr2 @ [FreeLibrary graphicsDLL]))))"

section \<open>Vectors (CommonTypes.h)\<close>

text \<open>
  The arithmetic of \<^verbatim>\<open>float32\<close> is a parameter: the type \<open>'f\<close> of its values, the value
  of the literal 0, the operations the vector code uses, and the test for a value that
  compares equal to zero.
\<close>

record 'f float32_ops =
  f_zero :: 'f
  f_add :: "'f \<Rightarrow> 'f \<Rightarrow> 'f"
  f_mul :: "'f \<Rightarrow> 'f \<Rightarrow> 'f"
  f_div :: "'f \<Rightarrow> 'f \<Rightarrow> 'f"
  f_sqrt :: "'f \<Rightarrow> 'f"
  f_gt :: "'f \<Rightarrow> 'f \<Rightarrow> bool"
  f_is_zero :: "'f \<Rightarrow> bool"

datatype 'f Vector2 = Vector2 (x2: 'f) (y2: 'f)
datatype 'f Vector3 = Vector3 (x3: 'f) (y3: 'f) (z3: 'f)

text \<open>A division whose divisor is zero has no result.\<close>

definition checked_div :: "'f float32_ops \<Rightarrow> 'f \<Rightarrow> 'f \<Rightarrow> 'f option" where
  "checked_div F a b = (if f_is_zero F b then None else Some (f_div F a b))"

definition Vector2_default :: "'f float32_ops \<Rightarrow> 'f Vector2" where
  "Vector2_default F = Vector2 (f_zero F) (f_zero F)"

definition Vector3_default :: "'f float32_ops \<Rightarrow> 'f Vector3" where
  "Vector3_default F = Vector3 (f_zero F) (f_zero F) (f_zero F)"

definition Vector2_Length :: "'f float32_ops \<Rightarrow> 'f Vector2 \<Rightarrow> 'f" where
  "Vector2_Length F v = f_sqrt F (f_add F (f_mul F (x2 v) (x2 v)) (f_mul F (y2 v) (y2 v)))"

definition Vector3_Length :: "'f float32_ops \<Rightarrow> 'f Vector3 \<Rightarrow> 'f" where
  "Vector3_Length F v =
     f_sqrt F (f_add F (f_add F (f_mul F (x3 v) (x3 v)) (f_mul F (y3 v) (y3 v)))
                       (f_mul F (z3 v) (z3 v)))"

text \<open>
  \<^verbatim>\<open>len > 0 ? Vector2(x/len, y/len) : Vector2()\<close>; the result is \<open>None\<close> when a division
  by zero was performed.
\<close>

definition Vector2_Normalized :: "'f float32_ops \<Rightarrow> 'f Vector2 \<Rightarrow> 'f Vector2 option" where
  "Vector2_Normalized F v =
     (let len = Vector2_Length F v in
      if f_gt F len (f_zero F) then
        (case checked_div F (x2 v) len of
           None \<Rightarrow> None
         | Some a \<Rightarrow>
             (case checked_div F (y2 v) len of
                None \<Rightarrow> None
              | Some b \<Rightarrow> Some (Vector2 a b)))
      else Some (Vector2_default F))"

definition Vector3_Normalized :: "'f float32_ops \<Rightarrow> 'f Vector3 \<Rightarrow> 'f Vector3 option" where
  "Vector3_Normalized F v =
     (let len = Vector3_Length F v in
      if f_gt F len (f_zero F) then
        (case checked_div F (x3 v) len of
           None \<Rightarrow> None
         | Some a \<Rightarrow>
             (case checked_div F (y3 v) len of
                None \<Rightarrow> None
              | Some b \<Rightarrow>
                  (case checked_div F (z3 v) len of
                     None \<Rightarrow> None
                   | Some c \<Rightarrow> Some (Vector3 a b c))))
      else Some (Vector3_default F))"

section \<open>Example inputs\<close>

text \<open>An initialized module, as a successful \<open>Initialize\<close> leaves it.\<close>

definition ready_module :: GraphicsModule where
  "ready_module = \<lparr>m_Device = 4096, m_Context = 8192, m_Initialized = True\<rparr>"

text \<open>A device on which every texture creation succeeds, with a texture per width.\<close>

definition native_texture_ok :: CreateTexture2D_call where
  "native_texture_ok dev d = (S_OK, 1000 + unat (Width d))"

definition desc_of_width :: "uint32 \<Rightarrow> TextureDesc" where
  "desc_of_width w = TextureDesc_default\<lparr>width := w, height := 1\<rparr>"

definition data_of_width :: "uint32 \<Rightarrow> TextureData" where
  "data_of_width w = \<lparr>texture = 1000 + unat w, view = None, data_width = w, data_height = 1\<rparr>"

text \<open>
  Two outcomes of \<^verbatim>\<open>D3D11CreateDevice\<close>: success, and a failure that has already stored
  a device.
\<close>

definition device_ok :: D3D11CreateDevice_outcome where
  "device_ok = \<lparr>device_hr = S_OK, ppDevice = 4096, ppImmediateContext = 8192\<rparr>"

definition partial_device :: D3D11CreateDevice_outcome where
  "partial_device = \<lparr>device_hr = E_FAIL, ppDevice = 4096, ppImmediateContext = 0\<rparr>"

text \<open>
  Two platforms for the host: a library that loads and exports nothing, and one that
  exports both symbols and whose factory returns an \<^verbatim>\<open>IGraphics\<close> at address 4096.
\<close>

definition host_env_no_create :: host_env where
  "host_env_no_create =
     \<lparr>LoadLibraryA_result = 7, GetProcAddress_result = (\<lambda>s. 0), createFunc_result = 0,
      is_IGraphics = False\<rparr>"

definition host_env_ok :: host_env where
  "host_env_ok =
     \<lparr>LoadLibraryA_result = 7,
      GetProcAddress_result =
        (\<lambda>s. if s = ''CreateModule'' then 11 else if s = ''DestroyModule'' then 12 else 0),
      createFunc_result = 4096, is_IGraphics = True\<rparr>"

text \<open>The arithmetic of the reals, as one instance of the operations on \<^verbatim>\<open>float32\<close>.\<close>

definition real_float32_ops :: "real float32_ops" where
  "real_float32_ops =
     \<lparr>f_zero = 0, f_add = (+), f_mul = (*), f_div = (/), f_sqrt = sqrt,
      f_gt = (\<lambda>a b. a > b), f_is_zero = (\<lambda>a. a = 0)\<rparr>"

section \<open>Properties\<close>

subsection \<open>Auxiliary facts\<close>

lemma SUCCEEDED_S_OK: "SUCCEEDED S_OK"
  by (simp add: SUCCEEDED_def S_OK_def)

lemma not_SUCCEEDED_E_FAIL: "\<not> SUCCEEDED E_FAIL"
  by (simp add: SUCCEEDED_def E_FAIL_def)

text \<open>With \<^verbatim>\<open>running\<close> true the loop uses up any bound, three calls per iteration.\<close>

lemma game_loop_running:
  "game_loop fuel True g tr =
     OutOfFuel (tr @ concat (replicate fuel [CallClear g, CallDrawText g, CallUpdate g]))"
  by (induction fuel arbitrary: tr) simp_all

text \<open>A table size that fits 64 bits is not converted to the handle 0.\<close>

lemma of_nat_Suc_neq_0:
  assumes "n < 2 ^ 64 - 1"
  shows "(of_nat (Suc n) :: 64 word) \<noteq> 0"
proof
  assume "(of_nat (Suc n) :: 64 word) = 0"
  then have "2 ^ LENGTH(64) dvd Suc n"
    by (simp only: word_of_nat_eq_0_iff)
  then have "(2::nat) ^ 64 \<le> Suc n"
    by (auto dest: dvd_imp_le)
  with assms show False by simp
qed

lemma Initialize_not_Success:
  "fst (Initialize native m) \<noteq> Success \<Longrightarrow>
     m_Initialized (snd (Initialize native m)) = m_Initialized m"
  by (simp add: Initialize_def InitializeDirectX_def split: if_splits)

lemma Initialize_success:
  "\<not> m_Initialized m \<Longrightarrow> SUCCEEDED (device_hr native) \<Longrightarrow>
     Initialize native m =
       (Success, m\<lparr>m_Device := ppDevice native, m_Context := ppImmediateContext native,
                    m_Initialized := True\<rparr>)"
  by (simp add: Initialize_def InitializeDirectX_def)

subsection \<open>Resource handles and texture creation\<close>

text \<open>
  C3. On a module that is not initialized, \<open>CreateTexture\<close> returns the default handle,
  whose id is 0, for every description and every native behaviour, and returns the
  resource table as it was. A module is in that state when it was just constructed and
  after every \<open>Initialize\<close> on it that did not return \<open>Success\<close>.
\<close>

theorem CreateTexture_uninitialized:
  "(\<not> IsInitialized m \<longrightarrow>
      CreateTexture native desc (m, tbl) = Inr (TextureHandle_default, tbl)) \<and>
   (fst (Initialize dev GraphicsModule_ctor) \<noteq> Success \<longrightarrow>
      CreateTexture native desc (snd (Initialize dev GraphicsModule_ctor), tbl) =
        Inr (TextureHandle_default, tbl)) \<and>
   texture_id TextureHandle_default = 0"
proof -
  have a: "\<not> m_Initialized m' \<Longrightarrow>
      CreateTexture native desc (m', tbl) = Inr (TextureHandle_default, tbl)" for m'
    by (simp add: CreateTexture_def)
  have b: "fst (Initialize dev GraphicsModule_ctor) \<noteq> Success \<Longrightarrow>
      \<not> m_Initialized (snd (Initialize dev GraphicsModule_ctor))"
    by (simp add: Initialize_not_Success GraphicsModule_ctor_def)
  from a b show ?thesis
    by (simp add: IsInitialized_def TextureHandle_default_def)
qed

text \<open>C3, at a freshly constructed module and at one whose device creation failed.\<close>

theorem CreateTexture_uninitialized_witness:
  "CreateTexture native_texture_ok TextureDesc_default (GraphicsModule_ctor, [data_of_width 1]) =
     Inr (TextureHandle_default, [data_of_width 1]) \<and>
   CreateTexture native_texture_ok TextureDesc_default
       (snd (Initialize partial_device GraphicsModule_ctor), [data_of_width 1]) =
     Inr (TextureHandle_default, [data_of_width 1]) \<and>
   texture_id TextureHandle_default = 0"
proof -
  have "fst (Initialize partial_device GraphicsModule_ctor) \<noteq> Success"
    by (simp add: Initialize_def InitializeDirectX_def partial_device_def
        GraphicsModule_ctor_def not_SUCCEEDED_E_FAIL)
  with CreateTexture_uninitialized
    [of GraphicsModule_ctor native_texture_ok TextureDesc_default "[data_of_width 1]"
      partial_device]
  show ?thesis
    by (simp add: IsInitialized_def GraphicsModule_ctor_def)
qed

text \<open>
  C5. The default texture, shader and mesh handles are not valid. A \<open>CreateTexture\<close> call
  that succeeds (the module is initialized, its device is not null, the native creation
  succeeded) returns a valid handle: the table's new length, which is not 0 as long as
  that length fits the 64 bits of the id, as the size of a \<^verbatim>\<open>std::vector\<close> does.
\<close>

theorem handle_validity:
  "\<not> TextureHandle_IsValid TextureHandle_default \<and>
   \<not> ShaderHandle_IsValid ShaderHandle_default \<and>
   \<not> MeshHandle_IsValid MeshHandle_default \<and>
   (m_Initialized m \<and> m_Device m \<noteq> nullptr \<and>
    SUCCEEDED (fst (native (m_Device m) (texDesc_of desc))) \<and> length tbl < 2 ^ 64 - 1 \<longrightarrow>
      (\<exists>h tbl'. CreateTexture native desc (m, tbl) = Inr (h, tbl') \<and>
         texture_id h = of_nat (length tbl + 1) \<and> TextureHandle_IsValid h))"
  by (auto simp add: CreateTexture_def TextureHandle_default_def ShaderHandle_default_def
      MeshHandle_default_def TextureHandle_IsValid_def ShaderHandle_IsValid_def
      MeshHandle_IsValid_def Let_def of_nat_Suc_neq_0 split: prod.splits simp del: of_nat_Suc)

text \<open>C5, at an initialized module whose table holds one texture: the handle is 2.\<close>

theorem handle_validity_witness:
  "\<exists>h tbl'. CreateTexture native_texture_ok (desc_of_width 5) (ready_module, [data_of_width 1]) =
       Inr (h, tbl') \<and> texture_id h = 2 \<and> TextureHandle_IsValid h"
  using handle_validity [of ready_module native_texture_ok "desc_of_width 5" "[data_of_width 1]"]
  by (simp add: ready_module_def native_texture_ok_def nullptr_def SUCCEEDED_S_OK)

subsection \<open>The module's lifecycle\<close>

text \<open>
  C4, as stated, fails: a device creation that reports failure after it has stored a
  device leaves that device in \<open>m_Device\<close> when \<open>Initialize\<close> returns \<open>Failure\<close>.
\<close>

theorem Initialize_failure_keeps_partial_device:
  "fst (Initialize partial_device GraphicsModule_ctor) = Failure \<and>
   m_Device (snd (Initialize partial_device GraphicsModule_ctor)) \<noteq> nullptr"
  by (simp add: Initialize_def InitializeDirectX_def partial_device_def GraphicsModule_ctor_def
      not_SUCCEEDED_E_FAIL nullptr_def)

text \<open>
  C4, amended. On an initialized module \<open>Initialize\<close> returns \<open>AlreadyInitialized\<close> and
  changes nothing. On a module that is not initialized, a failing device creation makes
  it return \<open>Failure\<close>, and the module then holds in \<open>m_Device\<close> and \<open>m_Context\<close> exactly
  what the native call stored: nothing is released. Whenever the result is not \<open>Success\<close>,
  \<open>IsInitialized\<close> is what it was before. After a \<open>Failure\<close> both members are null if the
  native call stored null in both.
\<close>

theorem Initialize_non_success:
  "(m_Initialized m \<longrightarrow> Initialize native m = (AlreadyInitialized, m)) \<and>
   (\<not> m_Initialized m \<and> \<not> SUCCEEDED (device_hr native) \<longrightarrow>
      Initialize native m =
        (Failure, m\<lparr>m_Device := ppDevice native, m_Context := ppImmediateContext native\<rparr>)) \<and>
   (fst (Initialize native m) \<noteq> Success \<longrightarrow>
      IsInitialized (snd (Initialize native m)) = IsInitialized m) \<and>
   (fst (Initialize native m) = Failure \<and> ppDevice native = nullptr \<and>
    ppImmediateContext native = nullptr \<longrightarrow>
      m_Device (snd (Initialize native m)) = nullptr \<and>
      m_Context (snd (Initialize native m)) = nullptr)"
  by (simp add: Initialize_def InitializeDirectX_def IsInitialized_def)

text \<open>C4 amended, at an initialized module and at a failing creation on a fresh one.\<close>

theorem Initialize_non_success_witness:
  "Initialize device_ok ready_module = (AlreadyInitialized, ready_module) \<and>
   Initialize partial_device GraphicsModule_ctor =
     (Failure, \<lparr>m_Device = 4096, m_Context = 0, m_Initialized = False\<rparr>) \<and>
   \<not> IsInitialized (snd (Initialize partial_device GraphicsModule_ctor))"
  using Initialize_non_success [of ready_module device_ok]
    Initialize_non_success [of GraphicsModule_ctor partial_device]
  by (simp add: ready_module_def partial_device_def GraphicsModule_ctor_def
      not_SUCCEEDED_E_FAIL IsInitialized_def)

text \<open>
  C7. \<open>Shutdown\<close> is idempotent: a second call changes nothing, \<open>IsInitialized\<close> is false
  after the first call and after the second, and on a module that was never initialized
  the call changes nothing at all.
\<close>

theorem Shutdown_idempotent:
  "Shutdown (Shutdown s) = Shutdown s \<and>
   \<not> IsInitialized (fst (Shutdown s)) \<and>
   \<not> IsInitialized (fst (Shutdown (Shutdown s))) \<and>
   Shutdown (GraphicsModule_ctor, tbl) = (GraphicsModule_ctor, tbl)"
  by (cases s) (simp add: Shutdown_def IsInitialized_def GraphicsModule_ctor_def)

text \<open>
  C9. The destructor is \<open>Shutdown\<close>. \<open>DestroyModule\<close> on a live module runs it: when the
  destructor has run and the storage is not yet given back, the object at \<open>p\<close> is the
  module as \<open>Shutdown\<close> left it, with \<open>m_Initialized\<close> false, whether or not \<open>Shutdown\<close>
  was called before; then the object is gone.
\<close>

theorem DestroyModule_runs_Shutdown:
  assumes "h p = Some m" and "p \<noteq> nullptr"
  shows "GraphicsModule_dtor (m, tbl) = Shutdown (m, tbl) \<and>
         delete_destructor p (h, tbl) =
           Inr (h(p \<mapsto> fst (Shutdown (m, tbl))), snd (Shutdown (m, tbl))) \<and>
         \<not> m_Initialized (fst (Shutdown (m, tbl))) \<and>
         DestroyModule p (h, tbl) = Inr (h(p := None), snd (Shutdown (m, tbl)))"
proof -
  have ni: "\<not> m_Initialized (fst (Shutdown (m, tbl)))"
    by (simp add: Shutdown_def)
  from assms have dd: "delete_destructor p (h, tbl) =
      Inr (h(p \<mapsto> fst (Shutdown (m, tbl))), snd (Shutdown (m, tbl)))"
    by (simp add: delete_destructor_def GraphicsModule_dtor_def split_beta)
  from assms dd have "DestroyModule p (h, tbl) = Inr (h(p := None), snd (Shutdown (m, tbl)))"
    by (simp add: DestroyModule_def operator_delete_def)
  with ni dd show ?thesis
    by (simp add: GraphicsModule_dtor_def)
qed

text \<open>
  C9, at a module that \<open>CreateModule\<close> allocated at address 4096 and \<open>Initialize\<close>
  initialized, and that was never shut down.
\<close>

theorem DestroyModule_runs_Shutdown_witness:
  "CreateModule 4096 Map.empty = (4096, [4096 \<mapsto> GraphicsModule_ctor]) \<and>
   Initialize device_ok GraphicsModule_ctor = (Success, ready_module) \<and>
   delete_destructor 4096 ([4096 \<mapsto> ready_module], [data_of_width 1]) =
     Inr ([4096 \<mapsto> \<lparr>m_Device = nullptr, m_Context = nullptr, m_Initialized = False\<rparr>], []) \<and>
   DestroyModule 4096 ([4096 \<mapsto> ready_module], [data_of_width 1]) = Inr (Map.empty, [])"
  using DestroyModule_runs_Shutdown
    [of "[4096 \<mapsto> ready_module]" 4096 ready_module "[data_of_width 1]"]
  by (simp add: nullptr_def Shutdown_def ready_module_def CreateModule_def Initialize_success
      device_ok_def GraphicsModule_ctor_def SUCCEEDED_S_OK)

text \<open>
  C10. The exported \<open>GetModuleInfo\<close> and the accessors of any module agree: the name is
  "DirectX11 Graphics", the version "1.0.0" and the priority \<open>System\<close>.
\<close>

theorem GetModuleInfo_agrees_with_accessors:
  "name GetModuleInfo = GetName m \<and> GetName m = ''DirectX11 Graphics'' \<and>
   version GetModuleInfo = GetVersion m \<and> GetVersion m = ''1.0.0'' \<and>
   priority GetModuleInfo = GetPriority m \<and> GetPriority m = System"
  by (simp add: GetModuleInfo_def GetName_def GetVersion_def GetPriority_def)

subsection \<open>The host's run\<close>

text \<open>
  C2. The library loads and does not export \<^verbatim>\<open>CreateModule\<close>: whatever the bound, \<open>Run\<close>
  returns after the message, and \<^verbatim>\<open>FreeLibrary\<close> on the handle it acquired is not among
  its calls. On the sibling path, where the created object is not an \<^verbatim>\<open>IGraphics\<close>, the
  handle is released.
\<close>

theorem Run_missing_CreateModule_skips_FreeLibrary:
  "LoadLibraryA_result host_env_no_create \<noteq> nullptr \<and>
   Run host_env_no_create fuel =
     Done [Print Loading, LoadLibraryA ''GraphicsModule.dll'',
           GetProcAddress 7 ''CreateModule'', Print NoCreateModule] \<and>
   FreeLibrary (LoadLibraryA_result host_env_no_create)
     \<notin> set [Print Loading, LoadLibraryA ''GraphicsModule.dll'',
              GetProcAddress 7 ''CreateModule'', Print NoCreateModule] \<and>
   Run (host_env_ok\<lparr>is_IGraphics := False\<rparr>) fuel =
     Done [Print Loading, LoadLibraryA ''GraphicsModule.dll'',
           GetProcAddress 7 ''CreateModule'', CallCreate, FreeLibrary 7]"
  by (simp add: Run_def host_env_no_create_def host_env_ok_def dynamic_cast_IGraphics_def
      nullptr_def)

text \<open>
  C6, as stated, fails: when the library loads, exports both symbols and its factory
  returns an \<^verbatim>\<open>IGraphics\<close>, no bound on the loop lets \<open>Run\<close> come to its end, and no
  prefix of the run holds the call of \<^verbatim>\<open>Shutdown\<close>.
\<close>

theorem Run_never_reaches_Shutdown:
  "\<not> (\<exists>fuel tr. Run host_env_ok fuel = Done tr) \<and>
   \<not> (\<exists>fuel tr. Run host_env_ok fuel = OutOfFuel tr \<and> CallShutdown 4096 \<in> set tr)"
  by (auto simp add: Run_def host_env_ok_def dynamic_cast_IGraphics_def nullptr_def
      game_loop_running)

text \<open>
  C6, amended. In a run that loads the library and finds \<^verbatim>\<open>CreateModule\<close>: if the created
  object is a non-null \<^verbatim>\<open>IGraphics\<close>, the calls are, in this order, the factory, then
  \<^verbatim>\<open>Initialize\<close>, then \<^verbatim>\<open>Clear\<close>, \<^verbatim>\<open>DrawText\<close> and \<^verbatim>\<open>Update\<close> once per iteration, all on the
  pointer the factory returned, and the loop is still running at every bound, so no call
  of \<^verbatim>\<open>Shutdown\<close>, of the destroy symbol or of \<^verbatim>\<open>FreeLibrary\<close> follows. Otherwise the
  run calls the factory, then \<^verbatim>\<open>FreeLibrary\<close>, and returns.
\<close>

theorem Run_order:
  assumes "LoadLibraryA_result env \<noteq> nullptr"
    and "GetProcAddress_result env ''CreateModule'' \<noteq> nullptr"
  shows "(createFunc_result env \<noteq> nullptr \<and> is_IGraphics env \<longrightarrow>
            Run env fuel =
              OutOfFuel
                ([Print Loading, LoadLibraryA ''GraphicsModule.dll'',
                  GetProcAddress (LoadLibraryA_result env) ''CreateModule'', CallCreate,
                  CallInitialize (createFunc_result env)]
                 @ concat (replicate fuel
                     [CallClear (createFunc_result env), CallDrawText (createFunc_result env),
                      CallUpdate (createFunc_result env)]))) \<and>
         (\<not> (createFunc_result env \<noteq> nullptr \<and> is_IGraphics env) \<longrightarrow>
            Run env fuel =
              Done [Print Loading, LoadLibraryA ''GraphicsModule.dll'',
                    GetProcAddress (LoadLibraryA_result env) ''CreateModule'', CallCreate,
                    FreeLibrary (LoadLibraryA_result env)])"
  using assms
  by (simp add: Run_def dynamic_cast_IGraphics_def game_loop_running Let_def)

text \<open>C6 amended, at two iterations of the loop, and at an object that is no \<^verbatim>\<open>IGraphics\<close>.\<close>

theorem Run_order_witness:
  "Run host_env_ok 2 =
     OutOfFuel
       [Print Loading, LoadLibraryA ''GraphicsModule.dll'', GetProcAddress 7 ''CreateModule'',
        CallCreate, CallInitialize 4096,
        CallClear 4096, CallDrawText 4096, CallUpdate 4096,
        CallClear 4096, CallDrawText 4096, CallUpdate 4096] \<and>
   Run (host_env_ok\<lparr>is_IGraphics := False\<rparr>) 2 =
     Done [Print Loading, LoadLibraryA ''GraphicsModule.dll'', GetProcAddress 7 ''CreateModule'',
           CallCreate, FreeLibrary 7]"
  using Run_order [of host_env_ok 2] Run_order [of "host_env_ok\<lparr>is_IGraphics := False\<rparr>" 2]
  by (simp add: host_env_ok_def nullptr_def numeral_2_eq_2)

subsection \<open>Vectors\<close>

text \<open>
  C8. Whatever the arithmetic of \<^verbatim>\<open>float32\<close>, as long as a value greater than zero does
  not compare equal to zero: \<open>Normalized\<close> on a \<open>Vector2\<close> or \<open>Vector3\<close> never divides by
  zero, and for a vector whose \<open>Length\<close> is not greater than zero it returns the zero
  vector.
\<close>

theorem Normalized_never_divides_by_zero:
  assumes "\<forall>a. f_gt F a (f_zero F) \<longrightarrow> \<not> f_is_zero F a"
  shows "Vector2_Normalized F v \<noteq> None \<and>
         Vector3_Normalized F w \<noteq> None \<and>
         (\<not> f_gt F (Vector2_Length F v) (f_zero F) \<longrightarrow>
            Vector2_Normalized F v = Some (Vector2_default F)) \<and>
         (\<not> f_gt F (Vector3_Length F w) (f_zero F) \<longrightarrow>
            Vector3_Normalized F w = Some (Vector3_default F))"
  using assms
  by (simp add: Vector2_Normalized_def Vector3_Normalized_def checked_div_def Let_def)

text \<open>C8, over the reals: at the vector (3, 4) and at the zero vectors.\<close>

theorem Normalized_never_divides_by_zero_witness:
  "Vector2_Normalized real_float32_ops (Vector2 3 4) \<noteq> None \<and>
   Vector3_Normalized real_float32_ops (Vector3 0 0 0) \<noteq> None \<and>
   Vector2_Normalized real_float32_ops (Vector2 0 0) = Some (Vector2 0 0) \<and>
   Vector3_Normalized real_float32_ops (Vector3 0 0 0) = Some (Vector3 0 0 0)"
  using Normalized_never_divides_by_zero [of real_float32_ops "Vector2 3 4" "Vector3 0 0 0"]
    Normalized_never_divides_by_zero [of real_float32_ops "Vector2 0 0" "Vector3 0 0 0"]
  by (simp add: real_float32_ops_def Vector2_Length_def Vector3_Length_def
      Vector2_default_def Vector3_default_def)

end
